theory Spec2Isabelle
  imports Main "HOL-Library.Sublist" "HOL-Library.Word"
begin

section \<open>The host: what the browser gives the script\<close>

text \<open>
  \<^verbatim>\<open>script.js\<close> is fifteen lines of glue around four things of the browser:
  \<^verbatim>\<open>URLSearchParams\<close>, the \<^verbatim>\<open>WebSocket\<close> constructor, \<^verbatim>\<open>JSON.parse\<close> and the
  global scope in which \<^verbatim>\<open>handleMessage\<close> is looked up.
\<close>

subsection \<open>Strings\<close>

text \<open>
  A JavaScript string is a list of 16-bit code units. \<open>js ''abc''\<close> is the string of an
  ASCII literal.
\<close>

type_synonym code_unit = "16 word"

type_synonym js_string = "code_unit list"

definition ascii :: "char \<Rightarrow> code_unit" where
  "ascii c = of_char c"

definition js :: "string \<Rightarrow> js_string" where
  "js s = map ascii s"

text \<open>
  Where the browser turns a string into bytes it encodes it as UTF-8: surrogate pairs
  are joined, a surrogate on its own becomes \<^verbatim>\<open>U+FFFD\<close>, and every scalar value is
  written in one to four bytes. A byte is a \<^typ>\<open>char\<close>.
\<close>

definition is_surrogate :: "int \<Rightarrow> bool" where
  "is_surrogate u = (0xD800 \<le> u \<and> u \<le> 0xDFFF)"

fun scalar_values :: "int list \<Rightarrow> int list" where
  "scalar_values [] = []"
| "scalar_values [u] = [if is_surrogate u then 0xFFFD else u]"
| "scalar_values (u # v # rest) =
     (if 0xD800 \<le> u \<and> u \<le> 0xDBFF \<and> 0xDC00 \<le> v \<and> v \<le> 0xDFFF
      then (0x10000 + (u - 0xD800) * 0x400 + (v - 0xDC00)) # scalar_values rest
      else (if is_surrogate u then 0xFFFD else u) # scalar_values (v # rest))"

definition utf8_bytes :: "int \<Rightarrow> string" where
  "utf8_bytes cp =
     map char_of
       (if cp < 0x80 then [cp]
        else if cp < 0x800 then [0xC0 + cp div 0x40, 0x80 + cp mod 0x40]
        else if cp < 0x10000 then
          [0xE0 + cp div 0x1000, 0x80 + cp div 0x40 mod 0x40, 0x80 + cp mod 0x40]
        else
          [0xF0 + cp div 0x40000, 0x80 + cp div 0x1000 mod 0x40,
           0x80 + cp div 0x40 mod 0x40, 0x80 + cp mod 0x40])"

definition utf8_encode :: "js_string \<Rightarrow> string" where
  "utf8_encode s = concat (map utf8_bytes (scalar_values (map uint s)))"

text \<open>
  Where the browser turns bytes into a string it decodes them as UTF-8, keeping a byte
  order mark and writing \<^verbatim>\<open>U+FFFD\<close> for every malformed sequence. The decoder is a
  state machine over the bytes: the code point so far, the number of continuation bytes
  still needed, and the bounds the next byte must lie in. A byte that cannot continue a
  sequence ends it with \<^verbatim>\<open>U+FFFD\<close> and is then read again as the start of the next.
\<close>

type_synonym utf8_state = "int \<times> int \<times> int \<times> int"

definition utf8_initial :: utf8_state where
  "utf8_initial = (0, 0, 0x80, 0xBF)"

definition utf8_lead :: "int \<Rightarrow> int list \<times> utf8_state" where
  "utf8_lead n =
     (if n \<le> 0x7F then ([n], utf8_initial)
      else if 0xC2 \<le> n \<and> n \<le> 0xDF then ([], (n mod 0x20, 1, 0x80, 0xBF))
      else if 0xE0 \<le> n \<and> n \<le> 0xEF then
        ([], (n mod 0x10, 2, if n = 0xE0 then 0xA0 else 0x80, if n = 0xED then 0x9F else 0xBF))
      else if 0xF0 \<le> n \<and> n \<le> 0xF4 then
        ([], (n mod 8, 3, if n = 0xF0 then 0x90 else 0x80, if n = 0xF4 then 0x8F else 0xBF))
      else ([0xFFFD], utf8_initial))"

fun utf8_step :: "utf8_state \<Rightarrow> int \<Rightarrow> int list \<times> utf8_state" where
  "utf8_step (cp, needed, lower, upper) n =
     (if needed = 0 then utf8_lead n
      else if n < lower \<or> upper < n then (0xFFFD # fst (utf8_lead n), snd (utf8_lead n))
      else if needed = 1 then ([cp * 0x40 + n mod 0x40], utf8_initial)
      else ([], (cp * 0x40 + n mod 0x40, needed - 1, 0x80, 0xBF)))"

fun utf8_decoder :: "utf8_state \<Rightarrow> int list \<Rightarrow> int list" where
  "utf8_decoder (cp, needed, lower, upper) [] = (if needed = 0 then [] else [0xFFFD])"
| "utf8_decoder st (n # ns) = fst (utf8_step st n) @ utf8_decoder (snd (utf8_step st n)) ns"

definition utf16_units :: "int \<Rightarrow> js_string" where
  "utf16_units cp =
     (if cp < 0x10000 then [word_of_int cp]
      else [word_of_int (0xD800 + (cp - 0x10000) div 0x400),
            word_of_int (0xDC00 + (cp - 0x10000) mod 0x400)])"

definition utf8_decode :: "string \<Rightarrow> js_string" where
  "utf8_decode bs = concat (map utf16_units (utf8_decoder utf8_initial (map of_char bs)))"

subsection \<open>URLSearchParams\<close>

text \<open>
  \<^verbatim>\<open>new URLSearchParams(init)\<close> drops one leading \<^verbatim>\<open>?\<close>, encodes the rest as UTF-8,
  cuts the bytes at every \<^verbatim>\<open>&\<close>, skips the empty pieces, cuts each piece at its first
  \<^verbatim>\<open>=\<close> (a piece without one has the empty value), turns \<^verbatim>\<open>+\<close> into a space,
  percent-decodes both halves and decodes each as UTF-8. The result is the list of
  pairs in the order of the query string.
\<close>

fun split_on :: "char \<Rightarrow> string \<Rightarrow> string list" where
  "split_on c [] = [[]]"
| "split_on c (x # xs) =
     (if x = c then [] # split_on c xs
      else (case split_on c xs of
              [] \<Rightarrow> [[x]]
            | y # ys \<Rightarrow> (x # y) # ys))"

definition hex_digit :: "char \<Rightarrow> nat option" where
  "hex_digit c =
     (let n = (of_char c :: nat) in
      if 48 \<le> n \<and> n \<le> 57 then Some (n - 48)
      else if 65 \<le> n \<and> n \<le> 70 then Some (n - 55)
      else if 97 \<le> n \<and> n \<le> 102 then Some (n - 87)
      else None)"

fun percent_decode :: "string \<Rightarrow> string" where
  "percent_decode [] = []"
| "percent_decode (c # cs) =
     (if c = CHR ''%'' then
        (case cs of
           a # b # rest \<Rightarrow>
             (case (hex_digit a, hex_digit b) of
                (Some h, Some l) \<Rightarrow> char_of (16 * h + l) # percent_decode rest
              | _ \<Rightarrow> c # percent_decode cs)
         | _ \<Rightarrow> c # percent_decode cs)
      else c # percent_decode cs)"

definition plus_to_space :: "string \<Rightarrow> string" where
  "plus_to_space s = map (\<lambda>c. if c = CHR ''+'' then CHR '' '' else c) s"

definition parse_pair :: "string \<Rightarrow> js_string \<times> js_string" where
  "parse_pair piece =
     (let name = takeWhile (\<lambda>c. c \<noteq> CHR ''='') piece;
          val = drop (Suc (length name)) piece
      in (utf8_decode (percent_decode (plus_to_space name)),
          utf8_decode (percent_decode (plus_to_space val))))"

definition urlencoded_parse :: "string \<Rightarrow> (js_string \<times> js_string) list" where
  "urlencoded_parse s = map parse_pair (filter (\<lambda>piece. piece \<noteq> []) (split_on CHR ''&'' s))"

definition URLSearchParams :: "js_string \<Rightarrow> (js_string \<times> js_string) list" where
  "URLSearchParams init =
     (case init of
        c # rest \<Rightarrow>
          if c = ascii CHR ''?'' then urlencoded_parse (utf8_encode rest)
          else urlencoded_parse (utf8_encode init)
      | [] \<Rightarrow> urlencoded_parse (utf8_encode init))"

text \<open>
  \<^verbatim>\<open>params.get(name)\<close>: the value of the first pair of that name, \<^verbatim>\<open>null\<close>
  (here \<^const>\<open>None\<close>) when there is none.
\<close>

fun get :: "(js_string \<times> js_string) list \<Rightarrow> js_string \<Rightarrow> js_string option" where
  "get [] name = None"
| "get ((n, v) # ps) name = (if n = name then Some v else get ps name)"

subsection \<open>Errors, the global handleMessage, typeof and the logical or\<close>

datatype js_error = SyntaxError | ReferenceError

text \<open>
  The kinds of value \<^verbatim>\<open>typeof\<close> tells apart.
\<close>

datatype js_type =
  Undefined | Null | Boolean | Number | BigInt | String | Symbol | Object | Function

text \<open>
  The global \<^verbatim>\<open>handleMessage\<close> at the moment an event fires. Either no binding of
  that name exists; or one was declared with \<^verbatim>\<open>let\<close>, \<^verbatim>\<open>const\<close> or \<^verbatim>\<open>class\<close> and
  never initialised, because the script declaring it threw before it got there; or the
  binding holds a value.
\<close>

datatype binding = Unbound | Uninitialised | Holds js_type

text \<open>
  \<^verbatim>\<open>typeof handleMessage\<close>. On a name without a binding it answers \<^verbatim>\<open>"undefined"\<close>
  and raises nothing; reading an uninitialised binding raises a ReferenceError, under
  \<^verbatim>\<open>typeof\<close> as anywhere else.
\<close>

fun typeof :: "binding \<Rightarrow> js_error + js_string" where
  "typeof Unbound = Inr (js ''undefined'')"
| "typeof Uninitialised = Inl ReferenceError"
| "typeof (Holds Undefined) = Inr (js ''undefined'')"
| "typeof (Holds Null) = Inr (js ''object'')"
| "typeof (Holds Boolean) = Inr (js ''boolean'')"
| "typeof (Holds Number) = Inr (js ''number'')"
| "typeof (Holds BigInt) = Inr (js ''bigint'')"
| "typeof (Holds String) = Inr (js ''string'')"
| "typeof (Holds Symbol) = Inr (js ''symbol'')"
| "typeof (Holds Object) = Inr (js ''object'')"
| "typeof (Holds Function) = Inr (js ''function'')"

text \<open>
  \<^verbatim>\<open>a || b\<close> where \<^verbatim>\<open>a\<close> is a string or \<^verbatim>\<open>null\<close>: both \<^verbatim>\<open>null\<close> and the empty
  string are falsy, so \<^verbatim>\<open>b\<close> is the result for either.
\<close>

fun logical_or :: "js_string option \<Rightarrow> js_string \<Rightarrow> js_string" where
  "logical_or None b = b"
| "logical_or (Some a) b = (if a = [] then b else a)"

subsection \<open>The constructor and JSON.parse\<close>

text \<open>
  How a run of the script's code ends: normally, with an exception, or, when its last
  act is the call \<^verbatim>\<open>handleMessage(data)\<close>, as that call ends. The callee is not part
  of the script, so the model does not say which of the two that is.
\<close>

datatype completion = Normal | Throw js_error | As_callee

text \<open>
  The host's two fallible functions are parameters of the model, so that every theorem
  holds whatever the browser does in them. \<open>WebSocket_throws url\<close> says that
  \<^verbatim>\<open>new WebSocket(url)\<close> raises a SyntaxError instead of returning a socket;
  \<open>JSON_parse text\<close> is the parsed value, or \<^const>\<open>None\<close> when \<^verbatim>\<open>JSON.parse\<close>
  raises a SyntaxError. The type \<open>'v\<close> is that of parsed values.
\<close>

record 'v host =
  WebSocket_throws :: "js_string \<Rightarrow> bool"
  JSON_parse :: "js_string \<Rightarrow> 'v option"

text \<open>
  The \<^verbatim>\<open>data\<close> of an event: the text of a text frame, a binary frame as the object
  the browser makes of it, or \<^verbatim>\<open>undefined\<close> on an event that is no message.
  \<^verbatim>\<open>JSON.parse\<close> converts its argument to a string first.
\<close>

datatype payload = Text js_string | Blob | ArrayBuffer | No_data

fun ToString :: "payload \<Rightarrow> js_string" where
  "ToString (Text s) = s"
| "ToString Blob = js ''[object Blob]''"
| "ToString ArrayBuffer = js ''[object ArrayBuffer]''"
| "ToString No_data = js ''undefined''"

section \<open>The script\<close>

text \<open>
  The two arrow functions the script installs, by name; \<open>invoke\<close> below runs them.
\<close>

datatype callback = Log_connected | Parse_and_dispatch

text \<open>
  A WebSocket object as far as the script touches it: the string given to the
  constructor and the four handler attributes, \<^verbatim>\<open>null\<close> until assigned.
\<close>

record websocket =
  url :: js_string
  onopen :: "callback option"
  onmessage :: "callback option"
  onerror :: "callback option"
  onclose :: "callback option"

text \<open>
  The page as the script sees and changes it: the argument of every
  \<^verbatim>\<open>new WebSocket\<close> evaluated so far, the constant \<^verbatim>\<open>ws\<close> (\<^const>\<open>None\<close> while
  uninitialised), the lines written with \<^verbatim>\<open>console.log\<close>, and the arguments of the
  calls \<^verbatim>\<open>handleMessage(data)\<close> made so far, oldest first.
\<close>

record 'v page =
  constructed :: "js_string list"
  ws :: "websocket option"
  console :: "js_string list"
  dispatched :: "'v list"

definition blank_page :: "'v page" where
  "blank_page = \<lparr>constructed = [], ws = None, console = [], dispatched = []\<rparr>"

definition urlParams :: "js_string \<Rightarrow> (js_string \<times> js_string) list" where
  "urlParams search = URLSearchParams search"

definition room :: "js_string \<Rightarrow> js_string" where
  "room search = logical_or (get (urlParams search) (js ''room'')) (js ''default'')"

definition name :: "js_string \<Rightarrow> js_string" where
  "name search = logical_or (get (urlParams search) (js ''name'')) (js ''anonymous'')"

definition serverUrl :: js_string where
  "serverUrl = js ''wss://your-backend.onrender.com/ws''"

text \<open>The template literal \<^verbatim>\<open>`${serverUrl}?room=${room}&name=${name}`\<close>.\<close>

definition ws_url :: "js_string \<Rightarrow> js_string" where
  "ws_url search = serverUrl @ js ''?room='' @ room search @ js ''&name='' @ name search"

text \<open>
  The string logged on open: \<^verbatim>\<open>U+2705\<close>, \<^verbatim>\<open>" WebSocket "\<close>, and \<^verbatim>\<open>U+5DF2\<close>,
  \<^verbatim>\<open>U+9023\<close>, \<^verbatim>\<open>U+7DDA\<close>.
\<close>

definition connected_message :: js_string where
  "connected_message = [0x2705] @ js '' WebSocket '' @ [0x5DF2, 0x9023, 0x7DDA]"

text \<open>
  Running the script top to bottom on a page whose \<^verbatim>\<open>window.location.search\<close> is
  \<open>search\<close>. When the constructor throws, the script ends there: \<^verbatim>\<open>ws\<close> stays
  uninitialised and no handler is assigned.
\<close>

definition script :: "'v host \<Rightarrow> js_string \<Rightarrow> completion \<times> 'v page" where
  "script h search =
     (let p = blank_page\<lparr>constructed := [ws_url search]\<rparr>
      in if WebSocket_throws h (ws_url search) then (Throw SyntaxError, p)
         else (Normal,
               p\<lparr>ws := Some \<lparr>url = ws_url search,
                             onopen = Some Log_connected,
                             onmessage = Some Parse_and_dispatch,
                             onerror = None,
                             onclose = None\<rparr>\<rparr>))"

section \<open>Events\<close>

datatype event = Open | Message payload | Error | Close

fun data :: "event \<Rightarrow> payload" where
  "data (Message d) = d"
| "data _ = No_data"

text \<open>
  The two callbacks. \<open>handleMessage\<close> is the global binding of that name at the moment
  the callback runs. The message callback parses first, then evaluates
  \<^verbatim>\<open>typeof handleMessage\<close>, and an exception of either leaves the callback. A call
  \<^verbatim>\<open>handleMessage(data)\<close> is recorded in \<^const>\<open>dispatched\<close>, and the callback ends as
  the call does.
\<close>

fun invoke ::
  "'v host \<Rightarrow> binding \<Rightarrow> callback \<Rightarrow> event \<Rightarrow> 'v page \<Rightarrow> completion \<times> 'v page"
where
  "invoke h handleMessage Log_connected ev p =
     (Normal, p\<lparr>console := console p @ [connected_message]\<rparr>)"
| "invoke h handleMessage Parse_and_dispatch ev p =
     (case JSON_parse h (ToString (data ev)) of
        None \<Rightarrow> (Throw SyntaxError, p)
      | Some d \<Rightarrow>
          (case typeof handleMessage of
             Inl e \<Rightarrow> (Throw e, p)
           | Inr t \<Rightarrow>
               if t = js ''function''
               then (As_callee, p\<lparr>dispatched := dispatched p @ [d]\<rparr>)
               else (Normal, p)))"

text \<open>The handler attribute an event is delivered to.\<close>

fun listener :: "websocket \<Rightarrow> event \<Rightarrow> callback option" where
  "listener w Open = onopen w"
| "listener w (Message d) = onmessage w"
| "listener w Error = onerror w"
| "listener w Close = onclose w"

text \<open>
  The browser fires an event of the socket: the callback assigned to the attribute
  runs, if there is one. An exception leaving the callback is reported by the browser
  and the page goes on.
\<close>

definition fire ::
  "'v host \<Rightarrow> binding \<Rightarrow> event \<Rightarrow> 'v page \<Rightarrow> completion \<times> 'v page"
where
  "fire h handleMessage ev p =
     (case ws p of
        None \<Rightarrow> (Normal, p)
      | Some w \<Rightarrow>
          (case listener w ev of
             None \<Rightarrow> (Normal, p)
           | Some cb \<Rightarrow> invoke h handleMessage cb ev p))"

text \<open>
  A history is a list of events, each with the binding of \<^verbatim>\<open>handleMessage\<close> at the
  time it fires (other scripts may define or remove it in between).
\<close>

fun run :: "'v host \<Rightarrow> (binding \<times> event) list \<Rightarrow> 'v page \<Rightarrow> 'v page" where
  "run h [] p = p"
| "run h ((handleMessage, ev) # es) p = run h es (snd (fire h handleMessage ev p))"

section \<open>The other end, and a host for the examples\<close>

text \<open>
  What the server reads as the query of the URL it is asked for: the text after the
  first \<^verbatim>\<open>?\<close>, up to a \<^verbatim>\<open>#\<close>.
\<close>

definition url_query :: "js_string \<Rightarrow> js_string" where
  "url_query u =
     takeWhile (\<lambda>c. c \<noteq> ascii CHR ''#'')
       (drop 1 (dropWhile (\<lambda>c. c \<noteq> ascii CHR ''?'') u))"

text \<open>
  A browser's \<^verbatim>\<open>WebSocket\<close> constructor raises a SyntaxError when the URL it is given
  has a fragment, which a URL has from its first \<^verbatim>\<open>#\<close> on.
\<close>

definition has_fragment :: "js_string \<Rightarrow> bool" where
  "has_fragment u = (ascii CHR ''#'' \<in> set u)"

text \<open>
  The closed examples below need one host to run on. This one agrees with a browser on
  the inputs they use: its constructor throws on a URL with a fragment, and its
  \<^verbatim>\<open>JSON.parse\<close> reads the three literal names and raises on the other texts tried.
\<close>

datatype json_literal = JSON_null | JSON_true | JSON_false

definition literal_parse :: "js_string \<Rightarrow> json_literal option" where
  "literal_parse s =
     (if s = js ''null'' then Some JSON_null
      else if s = js ''true'' then Some JSON_true
      else if s = js ''false'' then Some JSON_false
      else None)"

definition example_host :: "json_literal host" where
  "example_host = \<lparr>WebSocket_throws = has_fragment, JSON_parse = literal_parse\<rparr>"

section \<open>Facts about the model\<close>

lemma typeof_function: "typeof g = Inr (js ''function'') \<longleftrightarrow> g = Holds Function"
proof (cases g)
  case (Holds t)
  then show ?thesis by (cases t) (simp_all add: js_def)
qed (simp_all add: js_def)

lemma typeof_raises: "typeof g = Inl e \<longleftrightarrow> g = Uninitialised \<and> e = ReferenceError"
proof (cases g)
  case (Holds t)
  then show ?thesis by (cases t) simp_all
qed auto

lemma invoke_ws: "ws (snd (invoke h g cb ev p)) = ws p"
  by (cases cb) (simp_all split: option.splits sum.splits)

lemma invoke_constructed: "constructed (snd (invoke h g cb ev p)) = constructed p"
  by (cases cb) (simp_all split: option.splits sum.splits)

lemma fire_ws: "ws (snd (fire h g ev p)) = ws p"
  by (simp add: fire_def invoke_ws split: option.splits)

lemma fire_constructed: "constructed (snd (fire h g ev p)) = constructed p"
  by (simp add: fire_def invoke_constructed split: option.splits)

lemma run_ws: "ws (run h es p) = ws p"
  by (induction es arbitrary: p) (auto simp: fire_ws)

lemma run_constructed: "constructed (run h es p) = constructed p"
  by (induction es arbitrary: p) (auto simp: fire_constructed)

lemma run_append: "run h (es @ es') p = run h es' (run h es p)"
  by (induction es arbitrary: p) auto

lemma script_constructed: "constructed (snd (script h search)) = [ws_url search]"
  by (simp add: script_def blank_page_def Let_def)

lemma script_ws:
  "ws (snd (script h search)) =
     (if WebSocket_throws h (ws_url search) then None
      else Some \<lparr>url = ws_url search, onopen = Some Log_connected,
                  onmessage = Some Parse_and_dispatch, onerror = None, onclose = None\<rparr>)"
  by (simp add: script_def blank_page_def Let_def)

lemma script_completion:
  "fst (script h search) = (if WebSocket_throws h (ws_url search) then Throw SyntaxError else Normal)"
  by (simp add: script_def Let_def)

lemma sublist_room: "sublist (js ''room='' @ room search) (ws_url search)"
proof -
  have "ws_url search =
      (serverUrl @ js ''?'') @ (js ''room='' @ room search) @ (js ''&name='' @ name search)"
    by (simp add: ws_url_def js_def)
  then show ?thesis by (metis sublist_appendI)
qed

lemma sublist_name: "sublist (js ''name='' @ name search) (ws_url search)"
proof -
  have "ws_url search =
      (serverUrl @ js ''?room='' @ room search @ js ''&'') @ (js ''name='' @ name search)"
    by (simp add: ws_url_def js_def)
  then show ?thesis by (metis sublist_append_leftI)
qed

lemma sublist_front: "sublist (xs @ ys) zs \<Longrightarrow> sublist xs zs"
  by (metis append.assoc sublist_def)

lemma loaded_ws:
  assumes "\<not> WebSocket_throws h (ws_url search)"
  shows "ws (run h es (snd (script h search))) =
     Some \<lparr>url = ws_url search, onopen = Some Log_connected,
            onmessage = Some Parse_and_dispatch, onerror = None, onclose = None\<rparr>"
  using assms by (simp add: run_ws script_ws)

lemma unloaded_ws:
  assumes "WebSocket_throws h (ws_url search)"
  shows "ws (run h es (snd (script h search))) = None"
  using assms by (simp add: run_ws script_ws)

lemma fire_message_loaded:
  assumes "\<not> WebSocket_throws h (ws_url search)"
    and "p = run h es (snd (script h search))"
  shows "fire h g (Message d) p = invoke h g Parse_and_dispatch (Message d) p"
  using loaded_ws [OF assms(1), of es] assms(2) by (simp add: fire_def)

lemma fire_unloaded:
  assumes "WebSocket_throws h (ws_url search)"
    and "p = run h es (snd (script h search))"
  shows "fire h g ev p = (Normal, p)"
  using unloaded_ws [OF assms(1), of es] assms(2) by (simp add: fire_def)

lemma fire_unheard_loaded:
  assumes "\<not> WebSocket_throws h (ws_url search)"
    and "p = run h es (snd (script h search))"
    and "ev = Error \<or> ev = Close"
  shows "fire h g ev p = (Normal, p)"
  using loaded_ws [OF assms(1), of es] assms(2,3) by (auto simp: fire_def)

lemma invoke_undispatched:
  assumes "JSON_parse h (ToString d) = Some v" and "g \<noteq> Holds Function"
  shows "invoke h g Parse_and_dispatch (Message d) p =
     (if g = Uninitialised then Throw ReferenceError else Normal, p)"
proof (cases "typeof g")
  case (Inl e)
  then have "g = Uninitialised" and "e = ReferenceError"
    by (simp_all add: typeof_raises)
  with assms(1) show ?thesis by simp
next
  case (Inr t)
  then have "g \<noteq> Uninitialised"
    by auto
  moreover from Inr assms(2) have "t \<noteq> js ''function''"
    using typeof_function [of g] by auto
  ultimately show ?thesis using assms(1) Inr by simp
qed

lemma fire_dispatched:
  "dispatched (snd (fire h g ev p)) = dispatched p \<or>
   (\<exists>v. JSON_parse h (ToString (data ev)) = Some v \<and> typeof g = Inr (js ''function'') \<and>
        dispatched (snd (fire h g ev p)) = dispatched p @ [v])"
proof (cases "ws p")
  case None
  then show ?thesis by (simp add: fire_def)
next
  case (Some w)
  show ?thesis
  proof (cases "listener w ev")
    case None
    with Some show ?thesis by (simp add: fire_def)
  next
    case (Some cb)
    with \<open>ws p = Some w\<close> show ?thesis
      by (cases cb) (auto simp: fire_def split: option.splits sum.splits)
  qed
qed

lemma fire_url: "map_option url (ws (snd (fire h g ev p))) = map_option url (ws p)"
  by (simp add: fire_ws)

lemma serverUrl_no_query: "ascii CHR ''?'' \<notin> set serverUrl"
  by code_simp

lemma takeWhile_serverUrl:
  "takeWhile (\<lambda>c. c \<noteq> ascii CHR ''?'') (serverUrl @ ascii CHR ''?'' # rest) = serverUrl"
proof -
  have "\<And>x. x \<in> set serverUrl \<Longrightarrow> x \<noteq> ascii CHR ''?''"
    using serverUrl_no_query by auto
  then show ?thesis
    by (simp add: takeWhile_append2)
qed

text \<open>
  The parser decodes the escapes as UTF-8: \<^verbatim>\<open>%C3%A9\<close> is the one code unit
  \<^verbatim>\<open>U+00E9\<close>, a byte that is no UTF-8 becomes \<^verbatim>\<open>U+FFFD\<close>, and a character beyond the
  basic plane is a surrogate pair. The message logged on open is the one whose UTF-8
  bytes are in the source file.
\<close>

lemma URLSearchParams_utf8:
  "get (URLSearchParams (js ''?room=%C3%A9&name=%FF'')) (js ''room'') = Some [0xE9]"
  "get (URLSearchParams (js ''?room=%C3%A9&name=%FF'')) (js ''name'') = Some [0xFFFD]"
  "get (URLSearchParams (js ''?room=%F0%9F%98%80'')) (js ''room'') = Some [0xD83D, 0xDE00]"
  by code_simp+

lemma connected_message_bytes:
  "utf8_encode connected_message =
     map char_of [0xE2, 0x9C, 0x85 :: int] @ '' WebSocket '' @
     map char_of [0xE5, 0xB7, 0xB2, 0xE9, 0x80, 0xA3, 0xE7, 0xB7, 0x9A :: int]"
  by code_simp

section \<open>The claims\<close>

text \<open>
  C1. For every query string, the URL given to the WebSocket constructor contains
  \<^verbatim>\<open>room=\<close> immediately followed by the value of the \<^verbatim>\<open>room\<close> parameter
  (\<^verbatim>\<open>default\<close> when the parameter is absent), and \<^verbatim>\<open>name=\<close> immediately followed by
  the value of the \<^verbatim>\<open>name\<close> parameter (\<^verbatim>\<open>anonymous\<close> when it is absent). A parameter
  that is present with the empty value is covered too: \<^verbatim>\<open>room=\<close> followed by nothing
  is in the URL, which then goes on with the default.
\<close>

theorem url_carries_room_and_name:
  "constructed (snd (script h search)) = [ws_url search] \<and>
   sublist (js ''room='' @ (case get (urlParams search) (js ''room'') of None \<Rightarrow> js ''default'' | Some v \<Rightarrow> v))
     (ws_url search) \<and>
   sublist (js ''name='' @ (case get (urlParams search) (js ''name'') of None \<Rightarrow> js ''anonymous'' | Some v \<Rightarrow> v))
     (ws_url search)"
proof (intro conjI)
  show "constructed (snd (script h search)) = [ws_url search]"
    by (rule script_constructed)
next
  show "sublist (js ''room='' @ (case get (urlParams search) (js ''room'') of None \<Rightarrow> js ''default'' | Some v \<Rightarrow> v))
     (ws_url search)"
  proof (cases "get (urlParams search) (js ''room'')")
    case None
    then have "room search = js ''default''" by (simp add: room_def)
    with sublist_room [of search] None show ?thesis by simp
  next
    case (Some v)
    show ?thesis
    proof (cases "v = []")
      case True
      have "sublist (js ''room='') (ws_url search)"
        using sublist_room [of search] by (rule sublist_front)
      with Some True show ?thesis by simp
    next
      case False
      with Some have "room search = v" by (simp add: room_def)
      with sublist_room [of search] Some show ?thesis by simp
    qed
  qed
next
  show "sublist (js ''name='' @ (case get (urlParams search) (js ''name'') of None \<Rightarrow> js ''anonymous'' | Some v \<Rightarrow> v))
     (ws_url search)"
  proof (cases "get (urlParams search) (js ''name'')")
    case None
    then have "name search = js ''anonymous''" by (simp add: name_def)
    with sublist_name [of search] None show ?thesis by simp
  next
    case (Some v)
    show ?thesis
    proof (cases "v = []")
      case True
      have "sublist (js ''name='') (ws_url search)"
        using sublist_name [of search] by (rule sublist_front)
      with Some True show ?thesis by simp
    next
      case False
      with Some have "name search = v" by (simp add: name_def)
      with sublist_name [of search] Some show ?thesis by simp
    qed
  qed
qed

theorem url_carries_room_and_name_witness:
  "constructed (snd (script example_host (js ''?room=lobby&name=ann''))) =
     [js ''wss://your-backend.onrender.com/ws?room=lobby&name=ann''] \<and>
   sublist (js ''room=lobby'') (js ''wss://your-backend.onrender.com/ws?room=lobby&name=ann'') \<and>
   sublist (js ''name=ann'') (js ''wss://your-backend.onrender.com/ws?room=lobby&name=ann'')"
proof -
  have u: "ws_url (js ''?room=lobby&name=ann'') = js ''wss://your-backend.onrender.com/ws?room=lobby&name=ann''"
    by code_simp
  have r: "get (urlParams (js ''?room=lobby&name=ann'')) (js ''room'') = Some (js ''lobby'')"
    by code_simp
  have n: "get (urlParams (js ''?room=lobby&name=ann'')) (js ''name'') = Some (js ''ann'')"
    by code_simp
  from url_carries_room_and_name [of example_host "js ''?room=lobby&name=ann''"]
  show ?thesis
    unfolding u r n by (simp add: js_def)
qed

text \<open>
  C2, as stated, says that an absent \<^verbatim>\<open>handleMessage\<close> leaves the message callback as
  an unhandled fault. It need not: on a page the script has set up, a frame holding
  \<^verbatim>\<open>null\<close> arrives while no global \<^verbatim>\<open>handleMessage\<close> exists, \<^verbatim>\<open>typeof\<close> answers
  \<^verbatim>\<open>"undefined"\<close>, and the callback returns normally with the page unchanged.
\<close>

theorem absent_handler_returns_normally:
  "typeof Unbound = Inr (js ''undefined'') \<and>
   fire example_host Unbound (Message (Text (js ''null''))) (snd (script example_host (js ''?room=lobby'')))
     = (Normal, snd (script example_host (js ''?room=lobby'')))"
  by code_simp

text \<open>
  C2, amended. Connection failures and malformed JSON are unhandled by the script: a
  constructor that throws ends the script with that exception and without a socket;
  on every page the script has set up and after any history, an error or a close event
  finds no handler and changes nothing, and a frame that \<^verbatim>\<open>JSON.parse\<close> rejects
  leaves the message callback as a SyntaxError. A missing \<^verbatim>\<open>handleMessage\<close> does
  not always leave the callback as a fault: when no binding of that name exists, or it
  holds a value that is not a function, the callback returns normally. It does when
  the global is a \<^verbatim>\<open>let\<close>, \<^verbatim>\<open>const\<close> or \<^verbatim>\<open>class\<close> binding left uninitialised:
  there \<^verbatim>\<open>typeof\<close> raises a ReferenceError.
\<close>

theorem unhandled_faults:
  assumes "p = run h es (snd (script h search))"
  shows "(WebSocket_throws h (ws_url search) \<longrightarrow> fst (script h search) = Throw SyntaxError \<and> ws p = None) \<and>
         (\<not> WebSocket_throws h (ws_url search) \<longrightarrow>
            fire h g Error p = (Normal, p) \<and> fire h g Close p = (Normal, p) \<and>
            (JSON_parse h (ToString d) = None \<longrightarrow>
               fire h g (Message d) p = (Throw SyntaxError, p)) \<and>
            (JSON_parse h (ToString d') = Some v \<longrightarrow>
               fire h Uninitialised (Message d') p = (Throw ReferenceError, p) \<and>
               fire h Unbound (Message d') p = (Normal, p) \<and>
               (t \<noteq> Function \<longrightarrow> fire h (Holds t) (Message d') p = (Normal, p))))"
proof (intro conjI impI)
  assume "WebSocket_throws h (ws_url search)"
  then show "fst (script h search) = Throw SyntaxError"
    by (simp add: script_completion)
next
  assume "WebSocket_throws h (ws_url search)"
  then show "ws p = None"
    using assms by (simp add: unloaded_ws)
next
  assume ok: "\<not> WebSocket_throws h (ws_url search)"
  show "fire h g Error p = (Normal, p)"
    using fire_unheard_loaded [OF ok assms] by simp
next
  assume ok: "\<not> WebSocket_throws h (ws_url search)"
  show "fire h g Close p = (Normal, p)"
    using fire_unheard_loaded [OF ok assms] by simp
next
  assume ok: "\<not> WebSocket_throws h (ws_url search)"
    and "JSON_parse h (ToString d) = None"
  then show "fire h g (Message d) p = (Throw SyntaxError, p)"
    using fire_message_loaded [OF ok assms] by simp
next
  assume ok: "\<not> WebSocket_throws h (ws_url search)"
    and parsed: "JSON_parse h (ToString d') = Some v"
  show "fire h Uninitialised (Message d') p = (Throw ReferenceError, p)"
    using fire_message_loaded [OF ok assms, of Uninitialised d']
      invoke_undispatched [OF parsed, of Uninitialised p] by simp
next
  assume ok: "\<not> WebSocket_throws h (ws_url search)"
    and parsed: "JSON_parse h (ToString d') = Some v"
  show "fire h Unbound (Message d') p = (Normal, p)"
    using fire_message_loaded [OF ok assms, of Unbound d']
      invoke_undispatched [OF parsed, of Unbound p] by simp
next
  assume ok: "\<not> WebSocket_throws h (ws_url search)"
    and parsed: "JSON_parse h (ToString d') = Some v"
    and "t \<noteq> Function"
  then show "fire h (Holds t) (Message d') p = (Normal, p)"
    using fire_message_loaded [OF ok assms, of "Holds t" d']
      invoke_undispatched [OF parsed, of "Holds t" p] by simp
qed

theorem unhandled_faults_witness:
  "\<not> WebSocket_throws example_host (ws_url (js ''?room=lobby'')) \<and>
   JSON_parse example_host (ToString (Text (js ''{oops''))) = None \<and>
   fire example_host (Holds Function) (Message (Text (js ''{oops'')))
        (run example_host [(Unbound, Open)] (snd (script example_host (js ''?room=lobby''))))
     = (Throw SyntaxError, run example_host [(Unbound, Open)] (snd (script example_host (js ''?room=lobby'')))) \<and>
   JSON_parse example_host (ToString (Text (js ''null''))) = Some JSON_null \<and>
   fire example_host Uninitialised (Message (Text (js ''null'')))
        (run example_host [(Unbound, Open)] (snd (script example_host (js ''?room=lobby''))))
     = (Throw ReferenceError, run example_host [(Unbound, Open)] (snd (script example_host (js ''?room=lobby'')))) \<and>
   fire example_host Unbound (Message (Text (js ''null'')))
        (run example_host [(Unbound, Open)] (snd (script example_host (js ''?room=lobby''))))
     = (Normal, run example_host [(Unbound, Open)] (snd (script example_host (js ''?room=lobby'')))) \<and>
   Object \<noteq> Function \<and>
   fire example_host (Holds Object) (Message (Text (js ''null'')))
        (run example_host [(Unbound, Open)] (snd (script example_host (js ''?room=lobby''))))
     = (Normal, run example_host [(Unbound, Open)] (snd (script example_host (js ''?room=lobby'')))) \<and>
   WebSocket_throws example_host (ws_url (js ''?room=%23'')) \<and>
   fst (script example_host (js ''?room=%23'')) = Throw SyntaxError"
proof -
  have ok: "\<not> WebSocket_throws example_host (ws_url (js ''?room=lobby''))"
    by code_simp
  have bad: "JSON_parse example_host (ToString (Text (js ''{oops''))) = None"
    by code_simp
  have good: "JSON_parse example_host (ToString (Text (js ''null''))) = Some JSON_null"
    by code_simp
  have ty: "Object \<noteq> Function"
    by simp
  have thr: "WebSocket_throws example_host (ws_url (js ''?room=%23''))"
    by code_simp
  from ok bad good ty
    unhandled_faults [OF refl, of example_host "js ''?room=lobby''" "[(Unbound, Open)]" "Holds Function"
        "Text (js ''{oops'')" "Text (js ''null'')" JSON_null Object]
  have "fire example_host (Holds Function) (Message (Text (js ''{oops'')))
        (run example_host [(Unbound, Open)] (snd (script example_host (js ''?room=lobby''))))
     = (Throw SyntaxError, run example_host [(Unbound, Open)] (snd (script example_host (js ''?room=lobby'')))) \<and>
     fire example_host Uninitialised (Message (Text (js ''null'')))
        (run example_host [(Unbound, Open)] (snd (script example_host (js ''?room=lobby''))))
     = (Throw ReferenceError, run example_host [(Unbound, Open)] (snd (script example_host (js ''?room=lobby'')))) \<and>
     fire example_host Unbound (Message (Text (js ''null'')))
        (run example_host [(Unbound, Open)] (snd (script example_host (js ''?room=lobby''))))
     = (Normal, run example_host [(Unbound, Open)] (snd (script example_host (js ''?room=lobby'')))) \<and>
     fire example_host (Holds Object) (Message (Text (js ''null'')))
        (run example_host [(Unbound, Open)] (snd (script example_host (js ''?room=lobby''))))
     = (Normal, run example_host [(Unbound, Open)] (snd (script example_host (js ''?room=lobby''))))"
    by blast
  moreover from thr unhandled_faults [OF refl, of example_host "js ''?room=%23''" "[]"]
  have "fst (script example_host (js ''?room=%23'')) = Throw SyntaxError"
    by blast
  ultimately show ?thesis using ok bad good ty thr by blast
qed

text \<open>
  C3. For every inbound message event, on any page, the data is parsed before any
  dispatch: if the event adds a call of \<^verbatim>\<open>handleMessage\<close>, it adds exactly one, and its
  argument is the value \<^verbatim>\<open>JSON.parse\<close> returned for the event's data; if
  \<^verbatim>\<open>JSON.parse\<close> raises, no call is made. The argument is of the type of parsed
  values: the callback has no path that hands the frame's text itself to the handler.
\<close>

theorem dispatch_receives_parsed_value:
  "(dispatched (snd (fire h g (Message d) p)) \<noteq> dispatched p \<longrightarrow>
      (\<exists>v. JSON_parse h (ToString d) = Some v \<and>
           dispatched (snd (fire h g (Message d) p)) = dispatched p @ [v])) \<and>
   (JSON_parse h (ToString d) = None \<longrightarrow>
      dispatched (snd (fire h g (Message d) p)) = dispatched p)"
  using fire_dispatched [of h g "Message d" p] by auto

theorem dispatch_receives_parsed_value_witness:
  "dispatched (snd (fire example_host (Holds Function) (Message (Text (js ''true'')))
       (snd (script example_host (js ''?room=lobby'')))))
     \<noteq> dispatched (snd (script example_host (js ''?room=lobby''))) \<and>
   JSON_parse example_host (ToString (Text (js ''true''))) = Some JSON_true \<and>
   dispatched (snd (fire example_host (Holds Function) (Message (Text (js ''true'')))
       (snd (script example_host (js ''?room=lobby''))))) = [JSON_true] \<and>
   JSON_parse example_host (ToString (Text (js ''{oops''))) = None \<and>
   dispatched (snd (fire example_host (Holds Function) (Message (Text (js ''{oops'')))
       (snd (script example_host (js ''?room=lobby''))))) = []"
proof -
  have a: "dispatched (snd (fire example_host (Holds Function) (Message (Text (js ''true'')))
       (snd (script example_host (js ''?room=lobby'')))))
     \<noteq> dispatched (snd (script example_host (js ''?room=lobby'')))"
    by code_simp
  have b: "JSON_parse example_host (ToString (Text (js ''{oops''))) = None"
    by code_simp
  have c: "JSON_parse example_host (ToString (Text (js ''true''))) = Some JSON_true"
    by code_simp
  have e: "dispatched (snd (script example_host (js ''?room=lobby''))) = []"
    by code_simp
  from a b c e
    dispatch_receives_parsed_value [of example_host "Holds Function" "Text (js ''true'')" "snd (script example_host (js ''?room=lobby''))"]
    dispatch_receives_parsed_value [of example_host "Holds Function" "Text (js ''{oops'')" "snd (script example_host (js ''?room=lobby''))"]
  show ?thesis by simp
qed

text \<open>
  C4. For every event, on any page, a call of \<^verbatim>\<open>handleMessage\<close> is made only if, when
  the event fires, a global binding of that name exists and holds a function; when it
  does not, no call is made.
\<close>

theorem dispatch_only_to_function:
  "(dispatched (snd (fire h g ev p)) \<noteq> dispatched p \<longrightarrow> g = Holds Function) \<and>
   (g \<noteq> Holds Function \<longrightarrow> dispatched (snd (fire h g ev p)) = dispatched p)"
  using fire_dispatched [of h g ev p] by (auto simp: typeof_function)

theorem dispatch_only_to_function_witness:
  "dispatched (snd (fire example_host (Holds Function) (Message (Text (js ''true'')))
       (snd (script example_host (js ''?room=lobby'')))))
     \<noteq> dispatched (snd (script example_host (js ''?room=lobby''))) \<and>
   Holds Function = Holds Function \<and>
   Unbound \<noteq> Holds Function \<and>
   dispatched (snd (fire example_host Unbound (Message (Text (js ''true'')))
       (snd (script example_host (js ''?room=lobby'')))))
     = dispatched (snd (script example_host (js ''?room=lobby'')))"
proof -
  have a: "dispatched (snd (fire example_host (Holds Function) (Message (Text (js ''true'')))
       (snd (script example_host (js ''?room=lobby'')))))
     \<noteq> dispatched (snd (script example_host (js ''?room=lobby'')))"
    by code_simp
  have b: "Unbound \<noteq> Holds Function"
    by simp
  from a b
    dispatch_only_to_function [of example_host Unbound "Message (Text (js ''true''))" "snd (script example_host (js ''?room=lobby''))"]
  show ?thesis by blast
qed

text \<open>
  C5, as stated, says that for every query string the script constructs exactly one
  WebSocket connection. For the page query \<^verbatim>\<open>?room=%23\<close> the room is \<^verbatim>\<open>#\<close>, the URL
  handed to the constructor has a fragment, the constructor throws, and the script
  ends with that exception and without a connection.
\<close>

theorem fragment_leaves_no_connection:
  "room (js ''?room=%23'') = js ''#'' \<and>
   ws_url (js ''?room=%23'') = js ''wss://your-backend.onrender.com/ws?room=#&name=anonymous'' \<and>
   has_fragment (ws_url (js ''?room=%23'')) \<and>
   fst (script example_host (js ''?room=%23'')) = Throw SyntaxError \<and>
   ws (snd (script example_host (js ''?room=%23''))) = None"
  by code_simp

text \<open>
  C5, amended. For every query string and every host, the script evaluates
  \<^verbatim>\<open>new WebSocket\<close> exactly once, and no event that follows evaluates it again; the
  part of its argument before the first \<^verbatim>\<open>?\<close> is the constant
  \<^verbatim>\<open>wss://your-backend.onrender.com/ws\<close>, whatever the query string. When the
  constructor returns, the script completes and that is its one connection, to that
  URL; when the constructor throws, the script ends with the exception and there is no
  connection, then or later.
\<close>

theorem one_construction_fixed_address:
  "constructed (run h es (snd (script h search))) = [ws_url search] \<and>
   takeWhile (\<lambda>c. c \<noteq> ascii CHR ''?'') (ws_url search) = serverUrl \<and>
   serverUrl = js ''wss://your-backend.onrender.com/ws'' \<and>
   (\<not> WebSocket_throws h (ws_url search) \<longrightarrow>
      fst (script h search) = Normal \<and>
      map_option url (ws (run h es (snd (script h search)))) = Some (ws_url search)) \<and>
   (WebSocket_throws h (ws_url search) \<longrightarrow>
      fst (script h search) = Throw SyntaxError \<and>
      ws (run h es (snd (script h search))) = None)"
proof (intro conjI impI)
  show "constructed (run h es (snd (script h search))) = [ws_url search]"
    by (simp add: run_constructed script_constructed)
  show "takeWhile (\<lambda>c. c \<noteq> ascii CHR ''?'') (ws_url search) = serverUrl"
    using takeWhile_serverUrl [of "js ''room='' @ room search @ js ''&name='' @ name search"]
    by (simp add: ws_url_def js_def)
  show "serverUrl = js ''wss://your-backend.onrender.com/ws''"
    by (rule serverUrl_def)
next
  assume "\<not> WebSocket_throws h (ws_url search)"
  then show "fst (script h search) = Normal"
    by (simp add: script_completion)
next
  assume "\<not> WebSocket_throws h (ws_url search)"
  then show "map_option url (ws (run h es (snd (script h search)))) = Some (ws_url search)"
    by (simp add: loaded_ws)
next
  assume "WebSocket_throws h (ws_url search)"
  then show "fst (script h search) = Throw SyntaxError"
    by (simp add: script_completion)
next
  assume "WebSocket_throws h (ws_url search)"
  then show "ws (run h es (snd (script h search))) = None"
    by (rule unloaded_ws)
qed

theorem one_construction_fixed_address_witness:
  "constructed (run example_host [(Unbound, Open), (Unbound, Close), (Unbound, Error)]
      (snd (script example_host (js ''?room=lobby&name=ann''))))
     = [js ''wss://your-backend.onrender.com/ws?room=lobby&name=ann''] \<and>
   \<not> WebSocket_throws example_host (ws_url (js ''?room=lobby&name=ann'')) \<and>
   fst (script example_host (js ''?room=lobby&name=ann'')) = Normal \<and>
   map_option url (ws (run example_host [(Unbound, Open), (Unbound, Close), (Unbound, Error)]
      (snd (script example_host (js ''?room=lobby&name=ann'')))))
     = Some (js ''wss://your-backend.onrender.com/ws?room=lobby&name=ann'') \<and>
   WebSocket_throws example_host (ws_url (js ''?room=%23'')) \<and>
   constructed (run example_host [(Unbound, Open)] (snd (script example_host (js ''?room=%23''))))
     = [js ''wss://your-backend.onrender.com/ws?room=#&name=anonymous''] \<and>
   fst (script example_host (js ''?room=%23'')) = Throw SyntaxError \<and>
   ws (run example_host [(Unbound, Open)] (snd (script example_host (js ''?room=%23'')))) = None"
proof -
  have ok: "\<not> WebSocket_throws example_host (ws_url (js ''?room=lobby&name=ann''))"
    by code_simp
  have u: "ws_url (js ''?room=lobby&name=ann'') = js ''wss://your-backend.onrender.com/ws?room=lobby&name=ann''"
    by code_simp
  have thr: "WebSocket_throws example_host (ws_url (js ''?room=%23''))"
    by code_simp
  have u': "ws_url (js ''?room=%23'') = js ''wss://your-backend.onrender.com/ws?room=#&name=anonymous''"
    by code_simp
  from ok
    one_construction_fixed_address [of example_host "[(Unbound, Open), (Unbound, Close), (Unbound, Error)]"
      "js ''?room=lobby&name=ann''"]
  have "constructed (run example_host [(Unbound, Open), (Unbound, Close), (Unbound, Error)]
          (snd (script example_host (js ''?room=lobby&name=ann''))))
        = [ws_url (js ''?room=lobby&name=ann'')] \<and>
      fst (script example_host (js ''?room=lobby&name=ann'')) = Normal \<and>
      map_option url (ws (run example_host [(Unbound, Open), (Unbound, Close), (Unbound, Error)]
          (snd (script example_host (js ''?room=lobby&name=ann'')))))
        = Some (ws_url (js ''?room=lobby&name=ann''))"
    by blast
  moreover from thr
    one_construction_fixed_address [of example_host "[(Unbound, Open)]" "js ''?room=%23''"]
  have "constructed (run example_host [(Unbound, Open)] (snd (script example_host (js ''?room=%23''))))
        = [ws_url (js ''?room=%23'')] \<and>
      fst (script example_host (js ''?room=%23'')) = Throw SyntaxError \<and>
      ws (run example_host [(Unbound, Open)] (snd (script example_host (js ''?room=%23'')))) = None"
    by blast
  ultimately show ?thesis
    using ok thr unfolding u u' by blast
qed

text \<open>
  C6. No event handler changes the URL of the socket: one event leaves it as it is on
  any page, a whole history leaves it as the script made it, and when the constructor
  returned it is the URL with the room identifier computed at construction.
\<close>

theorem room_of_connection_is_fixed:
  "map_option url (ws (snd (fire h g ev p))) = map_option url (ws p) \<and>
   map_option url (ws (run h es (snd (script h search)))) =
     map_option url (ws (snd (script h search))) \<and>
   (\<not> WebSocket_throws h (ws_url search) \<longrightarrow>
      map_option url (ws (run h es (snd (script h search)))) =
        Some (serverUrl @ js ''?room='' @ room search @ js ''&name='' @ name search))"
proof (intro conjI impI)
  show "map_option url (ws (snd (fire h g ev p))) = map_option url (ws p)"
    by (rule fire_url)
  show "map_option url (ws (run h es (snd (script h search)))) =
     map_option url (ws (snd (script h search)))"
    by (simp add: run_ws)
next
  assume "\<not> WebSocket_throws h (ws_url search)"
  then show "map_option url (ws (run h es (snd (script h search)))) =
        Some (serverUrl @ js ''?room='' @ room search @ js ''&name='' @ name search)"
    by (simp add: loaded_ws ws_url_def)
qed

theorem room_of_connection_is_fixed_witness:
  "\<not> WebSocket_throws example_host (ws_url (js ''?room=lobby'')) \<and>
   room (js ''?room=lobby'') = js ''lobby'' \<and>
   map_option url (ws (run example_host
       [(Unbound, Open), (Holds Function, Message (Text (js ''true''))), (Unbound, Message (Text (js ''{oops''))),
        (Unbound, Error), (Unbound, Close)]
       (snd (script example_host (js ''?room=lobby'')))))
     = Some (js ''wss://your-backend.onrender.com/ws?room=lobby&name=anonymous'')"
proof -
  have ok: "\<not> WebSocket_throws example_host (ws_url (js ''?room=lobby''))"
    by code_simp
  have r: "room (js ''?room=lobby'') = js ''lobby''"
    by code_simp
  have v: "serverUrl @ js ''?room='' @ room (js ''?room=lobby'') @ js ''&name='' @ name (js ''?room=lobby'')
      = js ''wss://your-backend.onrender.com/ws?room=lobby&name=anonymous''"
    by code_simp
  from ok
    room_of_connection_is_fixed [of example_host Unbound Open blank_page
        "[(Unbound, Open), (Holds Function, Message (Text (js ''true''))), (Unbound, Message (Text (js ''{oops''))),
          (Unbound, Error), (Unbound, Close)]" "js ''?room=lobby''"]
  have "map_option url (ws (run example_host
       [(Unbound, Open), (Holds Function, Message (Text (js ''true''))), (Unbound, Message (Text (js ''{oops''))),
        (Unbound, Error), (Unbound, Close)]
       (snd (script example_host (js ''?room=lobby'')))))
     = Some (serverUrl @ js ''?room='' @ room (js ''?room=lobby'') @ js ''&name='' @ name (js ''?room=lobby''))"
    by blast
  with v have "map_option url (ws (run example_host
       [(Unbound, Open), (Holds Function, Message (Text (js ''true''))), (Unbound, Message (Text (js ''{oops''))),
        (Unbound, Error), (Unbound, Close)]
       (snd (script example_host (js ''?room=lobby'')))))
     = Some (js ''wss://your-backend.onrender.com/ws?room=lobby&name=anonymous'')"
    by (simp only:)
  with ok r show ?thesis by blast
qed

text \<open>
  C7. On every page the script has set up, after any history: the only
  \<^verbatim>\<open>new WebSocket\<close> evaluated is the script's one; the socket has handlers for open
  and message and none for error and close; and an error or a close event completes
  normally and leaves the page exactly as it was (no new connection, no other action).
\<close>

theorem no_reconnection:
  assumes "p = run h es (snd (script h search))"
  shows "constructed p = [ws_url search] \<and>
         fire h g Error p = (Normal, p) \<and>
         fire h g Close p = (Normal, p) \<and>
         (\<forall>w. ws p = Some w \<longrightarrow>
            onopen w = Some Log_connected \<and> onmessage w = Some Parse_and_dispatch \<and>
            onerror w = None \<and> onclose w = None)"
proof (cases "WebSocket_throws h (ws_url search)")
  case True
  then have "ws p = None"
    using assms by (simp add: run_ws script_ws)
  then show ?thesis
    using assms by (simp add: fire_def run_constructed script_constructed)
next
  case False
  from loaded_ws [OF False, of es] fire_unheard_loaded [OF False assms]
  show ?thesis
    using assms by (auto simp: run_constructed script_constructed)
qed

theorem no_reconnection_witness:
  "constructed (run example_host [(Unbound, Open), (Unbound, Close)] (snd (script example_host (js ''?room=lobby''))))
     = [js ''wss://your-backend.onrender.com/ws?room=lobby&name=anonymous''] \<and>
   fire example_host Unbound Error
       (run example_host [(Unbound, Open), (Unbound, Close)] (snd (script example_host (js ''?room=lobby''))))
     = (Normal, run example_host [(Unbound, Open), (Unbound, Close)] (snd (script example_host (js ''?room=lobby'')))) \<and>
   fire example_host Unbound Close
       (run example_host [(Unbound, Open), (Unbound, Close)] (snd (script example_host (js ''?room=lobby''))))
     = (Normal, run example_host [(Unbound, Open), (Unbound, Close)] (snd (script example_host (js ''?room=lobby'')))) \<and>
   ws (run example_host [(Unbound, Open), (Unbound, Close)] (snd (script example_host (js ''?room=lobby''))))
     = Some \<lparr>url = js ''wss://your-backend.onrender.com/ws?room=lobby&name=anonymous'',
              onopen = Some Log_connected, onmessage = Some Parse_and_dispatch,
              onerror = None, onclose = None\<rparr>"
proof -
  have w: "ws (run example_host [(Unbound, Open), (Unbound, Close)] (snd (script example_host (js ''?room=lobby''))))
     = Some \<lparr>url = js ''wss://your-backend.onrender.com/ws?room=lobby&name=anonymous'',
              onopen = Some Log_connected, onmessage = Some Parse_and_dispatch,
              onerror = None, onclose = None\<rparr>"
    by code_simp
  have u: "ws_url (js ''?room=lobby'') = js ''wss://your-backend.onrender.com/ws?room=lobby&name=anonymous''"
    by code_simp
  from w u
    no_reconnection [OF refl, of example_host "[(Unbound, Open), (Unbound, Close)]" "js ''?room=lobby''" Unbound]
  show ?thesis by simp
qed

text \<open>
  C8. The URL given to the constructor is \<^verbatim>\<open>serverUrl + "?room=" + room + "&name=" + name\<close>
  with nothing encoded: every character of \<^verbatim>\<open>room\<close> and of \<^verbatim>\<open>name\<close> is in it as it
  is. So what the other end reads can differ from what the page was given: for the page
  query \<^verbatim>\<open>?room=a%26name%3Dx\<close> the room is \<^verbatim>\<open>a&name=x\<close> and the name is the default,
  while reading the query of the connection URL the same way gives room \<^verbatim>\<open>a\<close> and
  name \<^verbatim>\<open>x\<close>.
\<close>

theorem url_is_verbatim_concatenation:
  "constructed (snd (script h search)) =
     [serverUrl @ js ''?room='' @ room search @ js ''&name='' @ name search] \<and>
   (c \<in> set (room search) \<union> set (name search) \<longrightarrow> c \<in> set (ws_url search)) \<and>
   room (js ''?room=a%26name%3Dx'') = js ''a&name=x'' \<and>
   name (js ''?room=a%26name%3Dx'') = js ''anonymous'' \<and>
   ws_url (js ''?room=a%26name%3Dx'') = js ''wss://your-backend.onrender.com/ws?room=a&name=x&name=anonymous'' \<and>
   get (URLSearchParams (url_query (ws_url (js ''?room=a%26name%3Dx'')))) (js ''room'') = Some (js ''a'') \<and>
   get (URLSearchParams (url_query (ws_url (js ''?room=a%26name%3Dx'')))) (js ''name'') = Some (js ''x'')"
proof (intro conjI impI)
  show "constructed (snd (script h search)) =
     [serverUrl @ js ''?room='' @ room search @ js ''&name='' @ name search]"
    by (simp add: script_constructed ws_url_def)
  show "room (js ''?room=a%26name%3Dx'') = js ''a&name=x''"
    by code_simp
  show "name (js ''?room=a%26name%3Dx'') = js ''anonymous''"
    by code_simp
  show "ws_url (js ''?room=a%26name%3Dx'') = js ''wss://your-backend.onrender.com/ws?room=a&name=x&name=anonymous''"
    by code_simp
  show "get (URLSearchParams (url_query (ws_url (js ''?room=a%26name%3Dx'')))) (js ''room'') = Some (js ''a'')"
    by code_simp
  show "get (URLSearchParams (url_query (ws_url (js ''?room=a%26name%3Dx'')))) (js ''name'') = Some (js ''x'')"
    by code_simp
next
  assume "c \<in> set (room search) \<union> set (name search)"
  then show "c \<in> set (ws_url search)"
    by (auto simp: ws_url_def)
qed

theorem url_is_verbatim_concatenation_witness:
  "ascii CHR ''&'' \<in> set (room (js ''?room=a%26name%3Dx'')) \<union> set (name (js ''?room=a%26name%3Dx'')) \<and>
   ascii CHR ''&'' \<in> set (ws_url (js ''?room=a%26name%3Dx'')) \<and>
   ascii CHR ''='' \<in> set (room (js ''?room=a%26name%3Dx'')) \<union> set (name (js ''?room=a%26name%3Dx'')) \<and>
   ascii CHR ''='' \<in> set (ws_url (js ''?room=a%26name%3Dx''))"
proof -
  have a: "ascii CHR ''&'' \<in> set (room (js ''?room=a%26name%3Dx'')) \<union> set (name (js ''?room=a%26name%3Dx''))"
    by code_simp
  have b: "ascii CHR ''='' \<in> set (room (js ''?room=a%26name%3Dx'')) \<union> set (name (js ''?room=a%26name%3Dx''))"
    by code_simp
  from a b
    url_is_verbatim_concatenation [of example_host "js ''?room=a%26name%3Dx''" "ascii CHR ''&''"]
    url_is_verbatim_concatenation [of example_host "js ''?room=a%26name%3Dx''" "ascii CHR ''=''"]
  show ?thesis by blast
qed

text \<open>
  C9. For every query string in which \<^verbatim>\<open>room\<close> (respectively \<^verbatim>\<open>name\<close>) is present with
  the empty value, the script uses \<^verbatim>\<open>default\<close> (respectively \<^verbatim>\<open>anonymous\<close>), which is
  also what it uses when the parameter is absent.
\<close>

theorem empty_parameter_takes_default:
  "(get (urlParams search) (js ''room'') = Some [] \<longrightarrow> room search = js ''default'') \<and>
   (get (urlParams search) (js ''room'') = None \<longrightarrow> room search = js ''default'') \<and>
   (get (urlParams search) (js ''name'') = Some [] \<longrightarrow> name search = js ''anonymous'') \<and>
   (get (urlParams search) (js ''name'') = None \<longrightarrow> name search = js ''anonymous'')"
  by (simp add: room_def name_def)

theorem empty_parameter_takes_default_witness:
  "get (urlParams (js ''?room=&name'')) (js ''room'') = Some [] \<and>
   room (js ''?room=&name'') = js ''default'' \<and>
   get (urlParams (js ''?x=1'')) (js ''room'') = None \<and>
   room (js ''?x=1'') = js ''default'' \<and>
   get (urlParams (js ''?room=&name'')) (js ''name'') = Some [] \<and>
   name (js ''?room=&name'') = js ''anonymous'' \<and>
   get (urlParams (js ''?x=1'')) (js ''name'') = None \<and>
   name (js ''?x=1'') = js ''anonymous'' \<and>
   ws_url (js ''?room=&name'') = ws_url (js ''?x=1'')"
proof -
  have a: "get (urlParams (js ''?room=&name'')) (js ''room'') = Some []"
    by code_simp
  have b: "get (urlParams (js ''?x=1'')) (js ''room'') = None"
    by code_simp
  have c: "get (urlParams (js ''?room=&name'')) (js ''name'') = Some []"
    by code_simp
  have d: "get (urlParams (js ''?x=1'')) (js ''name'') = None"
    by code_simp
  from a b c d empty_parameter_takes_default [of "js ''?room=&name''"] empty_parameter_takes_default [of "js ''?x=1''"]
  have "room (js ''?room=&name'') = js ''default'' \<and> room (js ''?x=1'') = js ''default'' \<and>
        name (js ''?room=&name'') = js ''anonymous'' \<and> name (js ''?x=1'') = js ''anonymous''"
    by blast
  with a b c d show ?thesis by (simp add: ws_url_def)
qed

text \<open>
  C10, as stated, says that a parsed message arriving while no function-valued global
  \<^verbatim>\<open>handleMessage\<close> exists raises no error. When the global is a binding left
  uninitialised, no function-valued \<^verbatim>\<open>handleMessage\<close> exists, yet
  \<^verbatim>\<open>typeof handleMessage\<close> raises a ReferenceError that leaves the callback.
\<close>

theorem uninitialised_handler_raises:
  "JSON_parse example_host (ToString (Text (js ''null''))) = Some JSON_null \<and>
   Uninitialised \<noteq> Holds Function \<and>
   fire example_host Uninitialised (Message (Text (js ''null'')))
       (snd (script example_host (js ''?room=lobby'')))
     = (Throw ReferenceError, snd (script example_host (js ''?room=lobby'')))"
  by code_simp

text \<open>
  C10, amended. On every page the script has set up, after any history: a message
  whose data parses, arriving while no function-valued global \<^verbatim>\<open>handleMessage\<close>
  exists, is discarded: it leaves the page unchanged, and it is never delivered later,
  since every continuation of the history ends in the page it would have ended in
  without that message. No error is raised when no binding of that name exists or it
  holds a value that is not a function; a binding left uninitialised makes the
  callback end with a ReferenceError.
\<close>

theorem message_without_handler_is_dropped:
  assumes "JSON_parse h (ToString d) = Some v"
    and "g \<noteq> Holds Function"
    and "p = run h es (snd (script h search))"
  shows "snd (fire h g (Message d) p) = p \<and>
         run h (es @ (g, Message d) # es') (snd (script h search)) =
           run h (es @ es') (snd (script h search)) \<and>
         (g \<noteq> Uninitialised \<longrightarrow> fst (fire h g (Message d) p) = Normal) \<and>
         (g = Uninitialised \<longrightarrow> \<not> WebSocket_throws h (ws_url search) \<longrightarrow>
            fst (fire h g (Message d) p) = Throw ReferenceError)"
proof -
  have fired: "fire h g (Message d) p =
      (if g = Uninitialised \<and> \<not> WebSocket_throws h (ws_url search)
       then Throw ReferenceError else Normal, p)"
  proof (cases "WebSocket_throws h (ws_url search)")
    case True
    then show ?thesis
      using fire_unloaded [OF True assms(3)] by simp
  next
    case False
    then show ?thesis
      using fire_message_loaded [OF False assms(3), of g d]
        invoke_undispatched [OF assms(1,2), of p] by simp
  qed
  then have "run h ((g, Message d) # es') p = run h es' p"
    by simp
  with assms(3) have "run h (es @ (g, Message d) # es') (snd (script h search)) =
      run h (es @ es') (snd (script h search))"
    by (simp add: run_append)
  with fired show ?thesis
    by auto
qed

theorem message_without_handler_is_dropped_witness:
  "JSON_parse example_host (ToString (Text (js ''true''))) = Some JSON_true \<and>
   Holds Object \<noteq> Holds Function \<and>
   Holds Object \<noteq> Uninitialised \<and>
   fire example_host (Holds Object) (Message (Text (js ''true'')))
       (run example_host [(Unbound, Open)] (snd (script example_host (js ''?room=lobby''))))
     = (Normal, run example_host [(Unbound, Open)] (snd (script example_host (js ''?room=lobby'')))) \<and>
   dispatched (run example_host
       ([(Unbound, Open)] @ (Holds Object, Message (Text (js ''true''))) #
          [(Holds Function, Message (Text (js ''false'')))])
       (snd (script example_host (js ''?room=lobby'')))) = [JSON_false] \<and>
   Uninitialised \<noteq> Holds Function \<and>
   \<not> WebSocket_throws example_host (ws_url (js ''?room=lobby'')) \<and>
   fire example_host Uninitialised (Message (Text (js ''true'')))
       (run example_host [(Unbound, Open)] (snd (script example_host (js ''?room=lobby''))))
     = (Throw ReferenceError,
        run example_host [(Unbound, Open)] (snd (script example_host (js ''?room=lobby''))))"
proof -
  have a: "JSON_parse example_host (ToString (Text (js ''true''))) = Some JSON_true"
    by code_simp
  have b: "Holds Object \<noteq> Holds Function"
    by simp
  have b': "Uninitialised \<noteq> Holds Function"
    by simp
  have c: "dispatched (run example_host
       ([(Unbound, Open)] @ [(Holds Function, Message (Text (js ''false'')))])
       (snd (script example_host (js ''?room=lobby'')))) = [JSON_false]"
    by code_simp
  have ok: "\<not> WebSocket_throws example_host (ws_url (js ''?room=lobby''))"
    by code_simp
  from message_without_handler_is_dropped [OF a b refl, of "[(Unbound, Open)]" "js ''?room=lobby''"
      "[(Holds Function, Message (Text (js ''false'')))]"] c
  have "fire example_host (Holds Object) (Message (Text (js ''true'')))
       (run example_host [(Unbound, Open)] (snd (script example_host (js ''?room=lobby''))))
     = (Normal, run example_host [(Unbound, Open)] (snd (script example_host (js ''?room=lobby'')))) \<and>
     dispatched (run example_host
       ([(Unbound, Open)] @ (Holds Object, Message (Text (js ''true''))) #
          [(Holds Function, Message (Text (js ''false'')))])
       (snd (script example_host (js ''?room=lobby'')))) = [JSON_false]"
    by (metis binding.distinct(5) prod.collapse)
  moreover
  from message_without_handler_is_dropped [OF a b' refl, of "[(Unbound, Open)]" "js ''?room=lobby''" "[]"] ok
  have "fire example_host Uninitialised (Message (Text (js ''true'')))
       (run example_host [(Unbound, Open)] (snd (script example_host (js ''?room=lobby''))))
     = (Throw ReferenceError,
        run example_host [(Unbound, Open)] (snd (script example_host (js ''?room=lobby''))))"
    by (metis prod.collapse)
  ultimately show ?thesis using a b b' ok by blast
qed

end
